theory Spec2Isabelle
  imports Main "HOL-Library.AList"
begin

section \<open>AttachmentRefInput: staging, reconciling and committing attachments\<close>

text \<open>
  A shallow embedding of the script of \<^verbatim>\<open>AttachmentRefInput.svelte\<close>. The component's
  variables are the fields of one record, every handler is a function from the state
  before to the state after, and every call the component makes to the outside (the
  document store, the file service, the status reporter, the event dispatcher) is
  appended to a trace in program order.

  Each handler is modelled run to completion: a query callback that arrives while a
  handler is suspended at an \<^verbatim>\<open>await\<close> is a step of its own, before or after the handler.
\<close>

subsection \<open>Data\<close>

type_synonym ref = string
type_synonym markup = string
type_synonym blob = string
type_synonym err = string
type_synonym metadata = "(string \<times> string) list option"

text \<open>The fields of a DOM \<^verbatim>\<open>File\<close> that the component reads.\<close>

record File =
  file_name :: string
  file_type :: string
  file_size :: nat
  file_lastModified :: int

text \<open>A \<^verbatim>\<open>FileList\<close>: \<^verbatim>\<open>item(index)\<close> may be \<^verbatim>\<open>null\<close>, which the loops test for.\<close>

type_synonym filelist = "File option list"

text \<open>The \<^verbatim>\<open>Attachment\<close> documents, with the fields \<^verbatim>\<open>createAttachment\<close> writes.\<close>

record attachment =
  att_id :: ref
  att_class :: ref
  collection :: string
  modifiedOn :: int
  modifiedBy :: ref
  att_space :: ref
  attachedTo :: ref
  attachedToClass :: ref
  att_name :: string
  att_file :: blob
  att_type :: string
  att_size :: nat
  lastModified :: int
  att_metadata :: metadata

text \<open>
  \<^verbatim>\<open>IdMap<Attachment>\<close> is a JavaScript \<^verbatim>\<open>Map\<close>, which keeps its entries in insertion
  order: an association list, with \<^verbatim>\<open>set\<close> as \<^const>\<open>AList.update\<close> (an existing key keeps
  its place), \<^verbatim>\<open>get\<close> as \<^const>\<open>map_of\<close>, \<^verbatim>\<open>delete\<close> as \<^const>\<open>AList.delete\<close> and
  \<^verbatim>\<open>size\<close> as \<^const>\<open>length\<close>. The draft \<^verbatim>\<open>Record<Ref<Attachment>, Attachment>\<close> is a
  JavaScript object, described below.
\<close>

type_synonym idmap = "(ref \<times> attachment) list"

text \<open>
  A JavaScript \<^verbatim>\<open>Set\<close> iterates in insertion order and ignores the insertion of a member:
  a list, with \<^verbatim>\<open>add\<close> as follows.
\<close>

definition set_add :: "'a list \<Rightarrow> 'a \<Rightarrow> 'a list" where
  "set_add xs x = (if x \<in> set xs then xs else xs @ [x])"

text \<open>
  The members of \<^verbatim>\<open>Set<Attachment>\<close> are objects, and a \<^verbatim>\<open>Set\<close> compares objects by
  identity: two documents with the same fields are two members. A reference to an object
  is the object's identity, a number, with the document it holds; \<^verbatim>\<open>add\<close> looks at the
  identity only.
\<close>

type_synonym attachment_object = "nat \<times> attachment"

definition set_add_object ::
  "attachment_object list \<Rightarrow> attachment_object \<Rightarrow> attachment_object list" where
  "set_add_object xs x = (if fst x \<in> fst ` set xs then xs else xs @ [x])"

text \<open>
  The own properties of a JavaScript object are enumerated with the array indices first,
  in ascending numeric order, and the other string keys after them in the order of their
  creation. An array index is the canonical decimal numeral of a number below
  \<open>2\<^sup>3\<^sup>2 - 1\<close>. An object is kept as the list of its properties in that order:
  \<^verbatim>\<open>Object.entries\<close> is \<open>objectEntries\<close> of the list, and \<^verbatim>\<open>Object.fromEntries\<close> assigns the
  entries one after the other, a key that is there keeping its place.
\<close>

definition digit :: "char \<Rightarrow> bool" where
  "digit c = (c \<in> set ''0123456789'')"

definition decimal :: "string \<Rightarrow> nat" where
  "decimal k = foldl (\<lambda>n c. 10 * n + (of_char c - 48)) 0 k"

definition isArrayIndex :: "string \<Rightarrow> bool" where
  "isArrayIndex k =
     (k \<noteq> [] \<and> list_all digit k \<and> (k = ''0'' \<or> hd k \<noteq> CHR ''0'') \<and> decimal k < 2 ^ 32 - 1)"

definition objectEntries :: "(string \<times> 'v) list \<Rightarrow> (string \<times> 'v) list" where
  "objectEntries ps =
     sort_key (\<lambda>p. decimal (fst p)) (filter (\<lambda>p. isArrayIndex (fst p)) ps)
     @ filter (\<lambda>p. \<not> isArrayIndex (fst p)) ps"

definition fromEntries :: "(string \<times> 'v) list \<Rightarrow> (string \<times> 'v) list" where
  "fromEntries es = objectEntries (foldl (\<lambda>ps e. AList.update (fst e) (snd e) ps) [] es)"

text \<open>
  The operations on the document store and the file service that return a promise.
  The arguments are those of the source's calls, in their order.
\<close>

datatype operation =
    UploadFile File
  | GetFileMetadata File blob
  | AddCollection ref ref ref ref string attachment ref
  | RemoveCollection ref ref ref ref ref string
  | DeleteFile blob

datatype status = UnknownError err

text \<open>
  The two live queries of the component, by their criteria: the class and the owner for
  the first (its \<^verbatim>\<open>lookup\<close> option is left out); the class, the space, the owner, the
  owner's class and the ids asked for, for the second.
\<close>

datatype criteria =
    AttachedToQuery ref ref
  | ExistingQuery ref ref ref ref "ref list"

text \<open>
  The trace. \<open>Call\<close> is the moment an operation is issued; \<open>Await\<close> is the moment the
  handler's control flow stops for the promises of the operations it has issued
  (\<^verbatim>\<open>await p\<close> after one call, \<^verbatim>\<open>await Promise.all(ps)\<close> after several). The handler
  goes on when all of them have fulfilled, and ends there when one rejects, unless the
  \<^verbatim>\<open>await\<close> stands in a \<^verbatim>\<open>try\<close>.
\<close>

datatype event =
    Call operation
  | Await
  | Query criteria
  | SetPlatformStatus status
  | Dispatch string markup nat

text \<open>
  What the component cannot decide: the outcome of an upload and of a metadata request
  (\<open>Inl\<close> is the error thrown), the identifiers \<^verbatim>\<open>generateId()\<close> hands out (the \<open>n\<close>-th
  call returns \<open>generateId env n\<close>), whether the promise of an operation fulfils, the
  identifier \<^verbatim>\<open>attachment.class.Attachment\<close> of the plugin, and \<^verbatim>\<open>toIdMap\<close> of the core
  package, which makes the map of a list of documents.
\<close>

record services =
  uploadFile :: "File \<Rightarrow> err + blob"
  getFileMetadata :: "File \<Rightarrow> blob \<Rightarrow> err + metadata"
  generateId :: "nat \<Rightarrow> ref"
  fulfils :: "operation \<Rightarrow> bool"
  class_Attachment :: ref
  toIdMap :: "attachment list \<Rightarrow> idmap"

text \<open>A DOM element with its \<^verbatim>\<open>parentElement\<close>; the number is the node's identity.\<close>

datatype element = Element (node: nat) (parentElement: "element option")

text \<open>
  A variable that holds an element, \<^verbatim>\<open>null\<close> or \<^verbatim>\<open>undefined\<close>: \<open>refContainer\<close> is
  declared without a value and assigned by \<^verbatim>\<open>bind:this\<close>, with the element when it is
  mounted and with \<^verbatim>\<open>null\<close> when it is removed. \<open>same t c\<close> is \<^verbatim>\<open>t === c\<close> for a
  \<open>t\<close> that is an element or \<^verbatim>\<open>null\<close>.
\<close>

datatype binding = Undefined | Null | Bound element

fun same :: "element option \<Rightarrow> binding \<Rightarrow> bool" where
  "same None Null = True"
| "same (Some e) (Bound c) = (e = c)"
| "same t c = False"

record clipboardItem =
  kind :: string

record clipboardData =
  items :: "clipboardItem list"
  files :: "File list"

record clipboardEvent =
  target :: "element option"
  clipboardData :: "clipboardData option"

record dragEvent =
  dataTransfer :: "filelist option"

text \<open>
  The component: its props (\<open>objectId\<close>, \<open>space\<close>, \<open>obj_class\<close> for \<^verbatim>\<open>_class\<close>,
  \<open>shouldSaveDraft\<close>, \<open>attachments\<close>, \<open>loading\<close>), its local variables, the file list of
  the hidden \<^verbatim>\<open>input\<close> element, the global \<^verbatim>\<open>draftsStore\<close>, the number of identifiers
  generated so far and the trace. \<open>draftKey\<close> is a \<^verbatim>\<open>const\<close>: no function assigns it.
\<close>

record component =
  objectId :: ref
  space :: ref
  obj_class :: ref
  shouldSaveDraft :: bool
  attachments :: idmap
  loading :: bool
  saved :: bool
  draftKey :: string
  draftAttachments :: "idmap option"
  originalAttachments :: "ref list"
  newAttachments :: "ref list"
  removedAttachments :: "attachment_object list"
  progress :: bool
  existingAttachments :: "ref list"
  refContainer :: binding
  inputFile_files :: "filelist option"
  draftsStore :: "string \<Rightarrow> idmap option"
  idsGenerated :: nat
  trace :: "event list"

definition emit :: "event list \<Rightarrow> component \<Rightarrow> component" where
  "emit es s = s\<lparr>trace := trace s @ es\<rparr>"

subsection \<open>Drafts\<close>

text \<open>
  Modelled from the spec: the \<^verbatim>\<open>DraftController\<close> of the presentation package is not in
  the source. Its \<^verbatim>\<open>save\<close> stages the object as the draft of the controller's key in
  \<^verbatim>\<open>draftsStore\<close>, and its \<^verbatim>\<open>remove\<close> deletes that draft.
\<close>

definition draftController_save :: "idmap \<Rightarrow> component \<Rightarrow> component" where
  "draftController_save d s = s\<lparr>draftsStore := (draftsStore s)(draftKey s := Some d)\<rparr>"

definition draftController_remove :: "component \<Rightarrow> component" where
  "draftController_remove s = s\<lparr>draftsStore := (draftsStore s)(draftKey s := None)\<rparr>"

text \<open>
  \<^verbatim>\<open>updateAttachments\<close>: an object is truthy, also the empty one, so the test
  \<^verbatim>\<open>draftAttachments && shouldSaveDraft\<close> asks for a draft to be there.
\<close>

definition updateAttachments :: "services \<Rightarrow> component \<Rightarrow> component" where
  "updateAttachments env s =
     (let s1 = s\<lparr>draftAttachments := draftsStore s (draftKey s)\<rparr> in
      case draftAttachments s1 of
        Some d \<Rightarrow>
          if shouldSaveDraft s1 then
            s1\<lparr>attachments :=
                 foldl (\<lambda>m e. AList.update (fst e) (snd e) m) [] (objectEntries d),
               newAttachments := foldl set_add [] (map fst (objectEntries d)),
               originalAttachments := [],
               removedAttachments := []\<rparr>
          else emit [Query (AttachedToQuery (class_Attachment env) (objectId s1))] s1
      | None \<Rightarrow> emit [Query (AttachedToQuery (class_Attachment env) (objectId s1))] s1)"

text \<open>The callback of that query.\<close>

definition attachmentsResult ::
  "services \<Rightarrow> attachment list \<Rightarrow> component \<Rightarrow> component" where
  "attachmentsResult env res s =
     s\<lparr>originalAttachments := foldl set_add [] (map att_id res),
       attachments := toIdMap env res\<rparr>"

text \<open>
  \<^verbatim>\<open>$: objectId && updateAttachments(objectId)\<close>: the statement runs when the component
  is created and whenever \<open>objectId\<close> has changed. An empty string is falsy.
\<close>

definition objectIdChanged :: "services \<Rightarrow> component \<Rightarrow> component" where
  "objectIdChanged env s = (if objectId s \<noteq> [] then updateAttachments env s else s)"

text \<open>
  \<^verbatim>\<open>saveDraft\<close>: the function has no \<^verbatim>\<open>await\<close>, so it has run when the call returns.
\<close>

definition saveDraft :: "component \<Rightarrow> component" where
  "saveDraft s =
     (if shouldSaveDraft s then
        draftController_save (fromEntries (attachments s))
          (s\<lparr>draftAttachments := Some (fromEntries (attachments s))\<rparr>)
      else s)"

subsection \<open>Staging an upload\<close>

definition createAttachment :: "services \<Rightarrow> File \<Rightarrow> component \<Rightarrow> component" where
  "createAttachment env f s =
     (let s1 = emit [Call (UploadFile f), Await] s in
      case uploadFile env f of
        Inl e \<Rightarrow> emit [SetPlatformStatus (UnknownError e)] s1
      | Inr uuid \<Rightarrow>
          (let s2 = emit [Call (GetFileMetadata f uuid), Await] s1 in
           case getFileMetadata env f uuid of
             Inl e \<Rightarrow> emit [SetPlatformStatus (UnknownError e)] s2
           | Inr md \<Rightarrow>
               (let i = generateId env (idsGenerated s2);
                    doc = \<lparr>att_id = i, att_class = class_Attachment env,
                           collection = ''attachments'', modifiedOn = 0, modifiedBy = [],
                           att_space = space s2, attachedTo = objectId s2,
                           attachedToClass = obj_class s2, att_name = file_name f,
                           att_file = uuid, att_type = file_type f, att_size = file_size f,
                           lastModified = file_lastModified f, att_metadata = md\<rparr>
                in saveDraft
                     (s2\<lparr>idsGenerated := Suc (idsGenerated s2),
                         attachments := AList.update i doc (attachments s2),
                         newAttachments := set_add (newAttachments s2) i\<rparr>))))"

subsection \<open>Reconciliation with the persisted attachments\<close>

text \<open>The criteria of the reactive \<^verbatim>\<open>existingAttachmentsQuery\<close>, and its callback.\<close>

definition existingAttachmentsQuery :: "services \<Rightarrow> component \<Rightarrow> criteria" where
  "existingAttachmentsQuery env s =
     ExistingQuery (class_Attachment env) (space s) (objectId s) (obj_class s)
       (map fst (attachments s))"

definition existingAttachmentsResult :: "attachment list \<Rightarrow> component \<Rightarrow> component" where
  "existingAttachmentsResult res s = s\<lparr>existingAttachments := map att_id res\<rparr>"

text \<open>
  \<^verbatim>\<open>saveAttachment\<close> and \<^verbatim>\<open>deleteAttachment\<close> end with the \<^verbatim>\<open>await\<close> of their one call:
  they are the operations they issue, and the wait is that of whoever awaits the promise
  they return.
\<close>

definition saveAttachment :: "services \<Rightarrow> component \<Rightarrow> attachment \<Rightarrow> operation list" where
  "saveAttachment env s doc =
     (if att_id doc \<notin> set (existingAttachments s) then
        [AddCollection (class_Attachment env) (space s) (objectId s) (obj_class s)
           ''attachments'' doc (att_id doc)]
      else [])"

definition deleteAttachment :: "component \<Rightarrow> attachment \<Rightarrow> operation list" where
  "deleteAttachment s a =
     (if att_id a \<in> set (originalAttachments s) then
        [RemoveCollection (att_class a) (att_space a) (att_id a) (attachedTo a)
           (attachedToClass a) ''attachments'']
      else [DeleteFile (att_file a)])"

subsection \<open>Commit and rollback\<close>

text \<open>
  The attachments \<^verbatim>\<open>newAttachments.forEach\<close> finds in the map:
  \<^verbatim>\<open>attachments.get(p)\<close> for each \<open>p\<close>, where it is defined.
\<close>

definition staged :: "component \<Rightarrow> attachment list" where
  "staged s = List.map_filter (map_of (attachments s)) (newAttachments s)"

text \<open>
  \<^verbatim>\<open>createAttachments\<close> returns \<^verbatim>\<open>Promise.all(promises)\<close>: the operations behind the
  promises, with the state. Nothing is awaited between the calls.
\<close>

definition createAttachments :: "services \<Rightarrow> component \<Rightarrow> operation list \<times> component" where
  "createAttachments env s =
     (let s1 = s\<lparr>saved := True\<rparr>;
          promises = concat (map (saveAttachment env s1) (staged s1))
                     @ concat (map (deleteAttachment s1) (map snd (removedAttachments s1)))
      in (promises, emit (map Call promises) s1))"

text \<open>
  \<^verbatim>\<open>onMessage\<close>: when the awaited promise rejects, the handler ends there, with
  \<open>loading\<close> still set and nothing dispatched.
\<close>

definition onMessage :: "services \<Rightarrow> markup \<Rightarrow> component \<Rightarrow> component" where
  "onMessage env detail s =
     (let (promises, s1) = createAttachments env (s\<lparr>loading := True\<rparr>);
          s2 = emit [Await] s1
      in if list_all (fulfils env) promises then
           emit [Dispatch ''message'' detail (length (attachments s2))] (s2\<lparr>loading := False\<rparr>)
         else s2)"

definition onUpdate :: "markup \<Rightarrow> component \<Rightarrow> component" where
  "onUpdate detail s = emit [Dispatch ''update'' detail (length (attachments s))] s"

text \<open>\<^verbatim>\<open>removeAttachment\<close> is given the object that the presenter showed.\<close>

definition removeAttachment ::
  "services \<Rightarrow> attachment_object \<Rightarrow> component \<Rightarrow> component" where
  "removeAttachment env a s =
     (let s1 = s\<lparr>removedAttachments := set_add_object (removedAttachments s) a,
                 attachments := AList.delete (att_id (snd a)) (attachments s)\<rparr>
      in if shouldSaveDraft s1 then
           (let (promises, s2) = createAttachments env s1;
                s3 = emit [Await] s2
            in if list_all (fulfils env) promises then saveDraft s3 else s3)
         else saveDraft s1)"

definition onDestroy :: "services \<Rightarrow> component \<Rightarrow> component" where
  "onDestroy env s =
     (let s1 = (if \<not> saved s \<and> \<not> shouldSaveDraft s
                then emit (map Call (concat (map (deleteAttachment s) (staged s)))) s
                else s)
      in if \<not> saved s1 \<and> shouldSaveDraft s1 then snd (createAttachments env s1) else s1)"

definition removeDraft :: "bool \<Rightarrow> component \<Rightarrow> component" where
  "removeDraft removeFiles s =
     (let s1 = draftController_remove s
      in if removeFiles then emit (map (\<lambda>a. Call (DeleteFile (att_file a))) (staged s1)) s1
         else s1)"

subsection \<open>Selecting, dropping and pasting files\<close>

text \<open>The loop over a \<^verbatim>\<open>FileList\<close>, each \<^verbatim>\<open>createAttachment\<close> awaited before the next.\<close>

fun createAll :: "services \<Rightarrow> filelist \<Rightarrow> component \<Rightarrow> component" where
  "createAll env [] s = s"
| "createAll env (None # fs) s = createAll env fs s"
| "createAll env (Some f # fs) s = createAll env fs (createAttachment env f s)"

text \<open>
  \<^verbatim>\<open>fileSelected\<close>: \<^verbatim>\<open>await tick()\<close> calls no service. \<^verbatim>\<open>inputFile.value = ''\<close> empties
  the element's file list.
\<close>

definition fileSelected :: "services \<Rightarrow> component \<Rightarrow> component" where
  "fileSelected env s =
     (let s1 = s\<lparr>progress := True\<rparr> in
      case inputFile_files s1 of
        None \<Rightarrow> s1
      | Some list \<Rightarrow>
          if length list = 0 then s1
          else (createAll env list s1)\<lparr>inputFile_files := Some [], progress := False\<rparr>)"

definition fileDrop :: "services \<Rightarrow> dragEvent \<Rightarrow> component \<Rightarrow> component" where
  "fileDrop env e s =
     (let s1 = s\<lparr>progress := True\<rparr> in
      case dataTransfer e of
        None \<Rightarrow> s1
      | Some list \<Rightarrow>
          if length list = 0 then s1
          else (createAll env list s1)\<lparr>progress := False\<rparr>)"

definition loadFiles :: "services \<Rightarrow> clipboardEvent \<Rightarrow> component \<Rightarrow> component" where
  "loadFiles env evt s =
     (let s1 = s\<lparr>progress := True\<rparr>;
          fs = (case clipboardData evt of None \<Rightarrow> [] | Some d \<Rightarrow> files d)
      in (createAll env (map Some fs) s1)\<lparr>progress := False\<rparr>)"

text \<open>
  The loop of \<^verbatim>\<open>pasteAction\<close>: \<open>target\<close> moves to its parent first and is compared
  with the container then, also when the parent is \<^verbatim>\<open>null\<close>.
\<close>

fun walk :: "binding \<Rightarrow> element option \<Rightarrow> bool \<Rightarrow> bool" where
  "walk container None allowed = allowed"
| "walk container (Some (Element n p)) allowed =
     walk container p (if same p container then True else allowed)"

text \<open>
  \<^verbatim>\<open>pasteAction\<close> returns its result with the state; \<^verbatim>\<open>void loadFiles(evt)\<close> is run
  to its end.
\<close>

definition pasteAction :: "services \<Rightarrow> clipboardEvent \<Rightarrow> component \<Rightarrow> bool \<times> component" where
  "pasteAction env evt s =
     (let allowed = walk (refContainer s) (target evt) False in
      if \<not> allowed then (False, s)
      else
        (let hasFiles = list_ex (\<lambda>i. kind i = ''file'')
                          (case clipboardData evt of None \<Rightarrow> [] | Some d \<Rightarrow> items d)
         in if \<not> hasFiles then (False, s) else (True, loadFiles env evt s)))"

subsection \<open>Executions\<close>



text \<open>
  What can happen to a component after its creation: the parent assigns a prop (the
  reactive statement runs when the value of \<open>objectId\<close> is a new one), the container is
  bound or unbound, its handlers run, the callbacks of its two queries arrive, the user
  chooses files in the hidden \<^verbatim>\<open>input\<close>, and a parent calls an exported function. Each
  step comes with the services as they answer during it.
\<close>

datatype action =
    SetObjectId ref
  | SetSpace ref
  | SetClass ref
  | SetShouldSaveDraft bool
  | SetAttachments idmap
  | SetLoading bool
  | BindContainer binding
  | AttachmentsResult "attachment list"
  | ExistingAttachmentsResult "attachment list"
  | FilesChosen "filelist option"
  | FileSelected
  | FileDrop dragEvent
  | RemoveAttachment attachment_object
  | RemoveDraft bool
  | CreateAttachments
  | OnMessage markup
  | OnUpdate markup
  | PasteAction clipboardEvent

fun step :: "services \<Rightarrow> action \<Rightarrow> component \<Rightarrow> component" where
  "step env (SetObjectId i) s =
     (if i = objectId s then s else objectIdChanged env (s\<lparr>objectId := i\<rparr>))"
| "step env (SetSpace i) s = s\<lparr>space := i\<rparr>"
| "step env (SetClass i) s = s\<lparr>obj_class := i\<rparr>"
| "step env (SetShouldSaveDraft b) s = s\<lparr>shouldSaveDraft := b\<rparr>"
| "step env (SetAttachments m) s = s\<lparr>attachments := m\<rparr>"
| "step env (SetLoading b) s = s\<lparr>loading := b\<rparr>"
| "step env (BindContainer c) s = s\<lparr>refContainer := c\<rparr>"
| "step env (AttachmentsResult res) s = attachmentsResult env res s"
| "step env (ExistingAttachmentsResult res) s = existingAttachmentsResult res s"
| "step env (FilesChosen l) s = s\<lparr>inputFile_files := l\<rparr>"
| "step env FileSelected s = fileSelected env s"
| "step env (FileDrop e) s = fileDrop env e s"
| "step env (RemoveAttachment a) s = removeAttachment env a s"
| "step env (RemoveDraft b) s = removeDraft b s"
| "step env CreateAttachments s = snd (createAttachments env s)"
| "step env (OnMessage m) s = onMessage env m s"
| "step env (OnUpdate m) s = onUpdate m s"
| "step env (PasteAction e) s = snd (pasteAction env e s)"

fun run :: "(services \<times> action) list \<Rightarrow> component \<Rightarrow> component" where
  "run [] s = s"
| "run ((env, a) # as) s = run as (step env a s)"

subsection \<open>Reading a trace\<close>

text \<open>
  The events a handler adds to the trace; the number of operations issued and not yet
  awaited after a sequence of events, starting from \<open>n\<close>; and the greatest such number
  on the way.
\<close>

definition issued :: "component \<Rightarrow> component \<Rightarrow> event list" where
  "issued s s' = drop (length (trace s)) (trace s')"

fun pending :: "nat \<Rightarrow> event list \<Rightarrow> nat" where
  "pending n [] = n"
| "pending n (Call op # es) = pending (Suc n) es"
| "pending n (Await # es) = pending 0 es"
| "pending n (e # es) = pending n es"

fun peak :: "nat \<Rightarrow> event list \<Rightarrow> nat" where
  "peak n [] = n"
| "peak n (Call op # es) = peak (Suc n) es"
| "peak n (Await # es) = max n (peak 0 es)"
| "peak n (e # es) = peak n es"

text \<open>The events of one \<^verbatim>\<open>createAttachment\<close>: they depend on the services and the file only.\<close>

definition createAttachment_events :: "services \<Rightarrow> File \<Rightarrow> event list" where
  "createAttachment_events env f =
     (case uploadFile env f of
        Inl e \<Rightarrow> [Call (UploadFile f), Await, SetPlatformStatus (UnknownError e)]
      | Inr uuid \<Rightarrow>
          [Call (UploadFile f), Await, Call (GetFileMetadata f uuid), Await]
          @ (case getFileMetadata env f uuid of
               Inl e \<Rightarrow> [SetPlatformStatus (UnknownError e)]
             | Inr md \<Rightarrow> []))"


subsection \<open>Sample values\<close>

definition demo_services :: services where
  "demo_services =
     \<lparr>uploadFile = (\<lambda>f. Inr (''blob-'' @ file_name f)),
      getFileMetadata = (\<lambda>f b. Inr None),
      generateId = (\<lambda>n. replicate (Suc n) CHR ''i''),
      fulfils = (\<lambda>op. True),
      class_Attachment = ''attachment:class:Attachment'',
      toIdMap = map (\<lambda>p. (att_id p, p))\<rparr>"

definition failing_services :: services where
  "failing_services =
     \<lparr>uploadFile = (\<lambda>f. Inl ''offline''),
      getFileMetadata = (\<lambda>f b. Inl ''offline''),
      generateId = (\<lambda>n. replicate (Suc n) CHR ''i''),
      fulfils = (\<lambda>op. False),
      class_Attachment = ''attachment:class:Attachment'',
      toIdMap = map (\<lambda>p. (att_id p, p))\<rparr>"

definition demo_file :: File where
  "demo_file =
     \<lparr>file_name = ''a.png'', file_type = ''image/png'', file_size = 10,
      file_lastModified = 5\<rparr>"

definition demo_attachment :: "ref \<Rightarrow> attachment" where
  "demo_attachment i =
     \<lparr>att_id = i, att_class = ''attachment:class:Attachment'', collection = ''attachments'',
      modifiedOn = 0, modifiedBy = [], att_space = ''sp'', attachedTo = ''doc'',
      attachedToClass = ''cls'', att_name = ''a.png'', att_file = ''blob-'' @ i,
      att_type = ''image/png'', att_size = 10, lastModified = 5, att_metadata = None\<rparr>"

text \<open>A component just mounted on the object \<open>doc\<close>, with nothing staged.\<close>

definition demo_component :: component where
  "demo_component =
     \<lparr>objectId = ''doc'', space = ''sp'', obj_class = ''cls'', shouldSaveDraft = False,
      attachments = [], loading = False, saved = False, draftKey = ''doc_attachments'',
      draftAttachments = None,
      originalAttachments = [], newAttachments = [], removedAttachments = [],
      progress = False, existingAttachments = [], refContainer = Bound (Element 1 None),
      inputFile_files = None, draftsStore = (\<lambda>k. None), idsGenerated = 0, trace = []\<rparr>"

text \<open>Services whose upload succeeds and whose metadata request fails.\<close>

definition metadata_failing_services :: services where
  "metadata_failing_services = demo_services\<lparr>getFileMetadata := (\<lambda>f b. Inl ''no metadata'')\<rparr>"

text \<open>
  A component with an original attachment \<open>o\<close> that is not staged; two staged
  attachments \<open>a\<close> and \<open>b\<close>, of which \<open>b\<close> is also among the original ones; and two removed
  attachments that are no longer in the map, the staged \<open>r\<close> and the original \<open>q\<close>.
\<close>

definition staged_component :: component where
  "staged_component =
     demo_component
       \<lparr>attachments := [(''o'', demo_attachment ''o''), (''a'', demo_attachment ''a''),
                        (''b'', demo_attachment ''b'')],
        newAttachments := [''a'', ''b'', ''r''],
        originalAttachments := [''o'', ''b'', ''q''],
        removedAttachments := [(0, demo_attachment ''r''), (1, demo_attachment ''q'')]\<rparr>"











section \<open>Properties\<close>

subsection \<open>The commit flag\<close>

lemma saved_emit [simp]: "saved (emit es s) = saved s"
  by (simp add: emit_def)

lemma saved_saveDraft [simp]: "saved (saveDraft s) = saved s"
  by (simp add: saveDraft_def draftController_save_def)

lemma saved_createAttachment [simp]: "saved (createAttachment env f s) = saved s"
  by (simp add: createAttachment_def Let_def split: sum.splits)

lemma saved_createAll [simp]: "saved (createAll env fs s) = saved s"
  by (induction env fs s rule: createAll.induct) simp_all

lemma saved_createAttachments [simp]: "saved (snd (createAttachments env s))"
  by (simp add: createAttachments_def Let_def)

lemma saved_step: "saved s \<Longrightarrow> saved (step env a s)"
  by (cases a)
     (auto simp: updateAttachments_def attachmentsResult_def existingAttachmentsResult_def
        objectIdChanged_def fileSelected_def fileDrop_def removeAttachment_def removeDraft_def
        draftController_remove_def
        onMessage_def onUpdate_def pasteAction_def loadFiles_def Let_def split_beta
        split: option.splits)

lemma saved_run: "saved s \<Longrightarrow> saved (run as s)"
  by (induction as s rule: run.induct) (simp_all add: saved_step)

lemma onDestroy_saved: "saved s \<Longrightarrow> onDestroy env s = s"
  by (simp add: onDestroy_def)

subsection \<open>Traces\<close>

lemma trace_emit [simp]: "trace (emit es s) = trace s @ es"
  by (simp add: emit_def)

lemma trace_saveDraft [simp]: "trace (saveDraft s) = trace s"
  by (simp add: saveDraft_def draftController_save_def)

lemma trace_createAttachment:
  "trace (createAttachment env f s) = trace s @ createAttachment_events env f"
  by (simp add: createAttachment_def createAttachment_events_def Let_def split: sum.splits)

lemma pending_append: "pending n (es @ fs) = pending (pending n es) fs"
  by (induction n es rule: pending.induct) simp_all

lemma peak_ge: "n \<le> peak n es"
  by (induction n es rule: peak.induct) (simp_all add: max.coboundedI1 Suc_leD)

lemma peak_append: "peak n (es @ fs) = max (peak n es) (peak (pending n es) fs)"
  by (induction n es rule: peak.induct) (simp_all add: max.assoc max_absorb2 peak_ge)

lemma pending_createAttachment_events: "pending n (createAttachment_events env f) = 0"
  by (simp add: createAttachment_events_def split: sum.splits)

lemma peak_createAttachment_events: "peak 0 (createAttachment_events env f) = 1"
  by (simp add: createAttachment_events_def split: sum.splits)

lemma createAll_trace:
  "\<exists>es. trace (createAll env fs s) = trace s @ es \<and> pending 0 es = 0 \<and> peak 0 es \<le> 1"
proof (induction env fs s rule: createAll.induct)
  case (1 env s)
  show ?case by simp
next
  case (2 env fs s)
  then show ?case by simp
next
  case (3 env f fs s)
  then obtain es where es: "trace (createAll env fs (createAttachment env f s)) =
      trace (createAttachment env f s) @ es" "pending 0 es = 0" "peak 0 es \<le> 1"
    by auto
  let ?cs = "createAttachment_events env f"
  have "trace (createAll env (Some f # fs) s) = trace s @ (?cs @ es)"
    using es(1) by (simp add: trace_createAttachment)
  moreover have "pending 0 (?cs @ es) = 0"
    by (simp add: pending_append pending_createAttachment_events es(2))
  moreover have "peak 0 (?cs @ es) \<le> 1"
    using es(3) by (simp add: peak_append pending_createAttachment_events peak_createAttachment_events)
  ultimately show ?case by blast
qed

lemma same_None [simp]: "same None c = (c = Null)"
  by (cases c) simp_all

lemma same_Some [simp]: "same (Some e) c = (c = Bound e)"
  by (cases c) auto





subsection \<open>Commit, maps and drafts\<close>

lemma saveAttachment_frame [simp]:
  "saveAttachment env (s\<lparr>loading := l\<rparr>) = saveAttachment env s"
  "saveAttachment env (s\<lparr>saved := b\<rparr>) = saveAttachment env s"
  by (simp_all add: saveAttachment_def fun_eq_iff)

lemma deleteAttachment_frame [simp]:
  "deleteAttachment (s\<lparr>loading := l\<rparr>) = deleteAttachment s"
  "deleteAttachment (s\<lparr>saved := b\<rparr>) = deleteAttachment s"
  by (simp_all add: deleteAttachment_def fun_eq_iff)

lemma staged_frame [simp]:
  "staged (s\<lparr>loading := l\<rparr>) = staged s"
  "staged (s\<lparr>saved := b\<rparr>) = staged s"
  by (simp_all add: staged_def)

lemma set_staged:
  "set (staged s) = {a. \<exists>p \<in> set (newAttachments s). map_of (attachments s) p = Some a}"
  by (force simp: staged_def map_filter_def)

lemma staged_concat:
  "staged s =
     concat (map (\<lambda>p. case map_of (attachments s) p of None \<Rightarrow> [] | Some a \<Rightarrow> [a])
               (newAttachments s))"
proof -
  have "List.map_filter f xs = concat (map (\<lambda>p. case f p of None \<Rightarrow> [] | Some a \<Rightarrow> [a]) xs)"
    for f :: "ref \<Rightarrow> attachment option" and xs
    by (induction xs) (simp_all add: map_filter_simps split: option.splits)
  then show ?thesis by (simp add: staged_def)
qed

lemma saves_explicit:
  "concat (map (saveAttachment env s) xs) =
     map (\<lambda>a. AddCollection (class_Attachment env) (space s) (objectId s) (obj_class s)
                ''attachments'' a (att_id a))
       (filter (\<lambda>a. att_id a \<notin> set (existingAttachments s)) xs)"
  by (induction xs) (simp_all add: saveAttachment_def)

lemma deletes_explicit:
  "concat (map (deleteAttachment s) xs) =
     map (\<lambda>a. if att_id a \<in> set (originalAttachments s)
               then RemoveCollection (att_class a) (att_space a) (att_id a) (attachedTo a)
                      (attachedToClass a) ''attachments''
               else DeleteFile (att_file a)) xs"
  by (induction xs) (simp_all add: deleteAttachment_def)

lemma fst_createAttachments:
  "fst (createAttachments env s) =
     concat (map (saveAttachment env s) (staged s))
     @ concat (map (deleteAttachment s) (map snd (removedAttachments s)))"
  by (simp add: createAttachments_def Let_def)

lemma snd_createAttachments:
  "snd (createAttachments env s) =
     emit (map Call (fst (createAttachments env s))) (s\<lparr>saved := True\<rparr>)"
  by (simp add: createAttachments_def Let_def)

lemma trace_onMessage:
  "trace (onMessage env detail s) =
     trace s @ map Call (fst (createAttachments env s))
     @ Await # (if list_all (fulfils env) (fst (createAttachments env s))
                then [Dispatch ''message'' detail (length (attachments s))] else [])"
  by (simp add: onMessage_def split_beta Let_def fst_createAttachments snd_createAttachments
        emit_def)

lemma update_fresh: "k \<notin> fst ` set al \<Longrightarrow> AList.update k v al = al @ [(k, v)]"
  by (induction al) auto

lemma set_objectEntries [simp]: "set (objectEntries ps) = set ps"
  by (auto simp: objectEntries_def)






lemma peak_Calls: "peak n (map Call ops) = n + length ops"
  by (induction ops arbitrary: n) simp_all

lemma pending_Calls: "pending n (map Call ops) = n + length ops"
  by (induction ops arbitrary: n) simp_all

lemma peak_Calls_Await: "peak 0 (map Call ops @ Await # es) = max (length ops) (peak 0 es)"
  by (simp add: peak_append peak_Calls pending_Calls max.absorb2 flip: max.assoc)

lemma issued_emit [simp]: "issued s (emit es s) = es"
  by (simp add: issued_def emit_def)

lemma issued_append: "trace s' = trace s @ es \<Longrightarrow> issued s s' = es"
  by (simp add: issued_def)

lemma commit_ops:
  "fst (createAttachments env s) =
      map (\<lambda>a. AddCollection (class_Attachment env) (space s) (objectId s) (obj_class s)
                 ''attachments'' a (att_id a))
        (filter (\<lambda>a. att_id a \<notin> set (existingAttachments s))
           (concat (map (\<lambda>p. case map_of (attachments s) p of None \<Rightarrow> [] | Some a \<Rightarrow> [a])
                      (newAttachments s))))
      @ map (\<lambda>r. if att_id (snd r) \<in> set (originalAttachments s)
                  then RemoveCollection (att_class (snd r)) (att_space (snd r))
                         (att_id (snd r)) (attachedTo (snd r)) (attachedToClass (snd r))
                         ''attachments''
                  else DeleteFile (att_file (snd r)))
          (removedAttachments s)"
proof -
  have d: "concat (map (deleteAttachment s) (map snd xs)) =
      map (\<lambda>r. if att_id (snd r) \<in> set (originalAttachments s)
                then RemoveCollection (att_class (snd r)) (att_space (snd r))
                       (att_id (snd r)) (attachedTo (snd r)) (attachedToClass (snd r))
                       ''attachments''
                else DeleteFile (att_file (snd r))) xs" for xs
    by (induction xs) (simp_all add: deleteAttachment_def)
  show ?thesis
    unfolding fst_createAttachments d saves_explicit staged_concat ..
qed

subsection \<open>The draft key\<close>

lemma draftKey_emit [simp]: "draftKey (emit es s) = draftKey s"
  by (simp add: emit_def)

lemma draftKey_saveDraft [simp]: "draftKey (saveDraft s) = draftKey s"
  by (simp add: saveDraft_def draftController_save_def)

lemma draftKey_createAttachment [simp]: "draftKey (createAttachment env f s) = draftKey s"
  by (simp add: createAttachment_def Let_def split: sum.splits)

lemma draftKey_createAll [simp]: "draftKey (createAll env fs s) = draftKey s"
  by (induction env fs s rule: createAll.induct) simp_all

lemma draftKey_createAttachments [simp]: "draftKey (snd (createAttachments env s)) = draftKey s"
  by (simp add: createAttachments_def Let_def)

lemma draftKey_updateAttachments [simp]: "draftKey (updateAttachments env s) = draftKey s"
  by (simp add: updateAttachments_def Let_def split: option.splits)





section \<open>The claims\<close>

text \<open>
  C1. On a message, \<^verbatim>\<open>onMessage\<close> first issues the commit. For every id of
  \<open>newAttachments\<close> whose attachment is still in the map, in the order of the set, the
  attachment is added to the store by \<^verbatim>\<open>addCollection\<close>, unless its id is among the
  existing ones. Then every removed attachment is deleted, by \<^verbatim>\<open>removeCollection\<close> when
  its id is among the original ones and by \<^verbatim>\<open>deleteFile\<close> of its blob otherwise. All of
  them are awaited, and only then, when all of them have fulfilled, \<open>message\<close> is
  dispatched with the markup and the size of the map. When one of them rejects nothing
  is dispatched. The map is not changed and \<open>saved\<close> is set.
\<close>

theorem onMessage_commits_then_dispatches:
  "(let adds =
          map (\<lambda>a. AddCollection (class_Attachment env) (space s) (objectId s) (obj_class s)
                     ''attachments'' a (att_id a))
            (filter (\<lambda>a. att_id a \<notin> set (existingAttachments s))
               (concat (map (\<lambda>p. case map_of (attachments s) p of None \<Rightarrow> [] | Some a \<Rightarrow> [a])
                          (newAttachments s))));
        dels =
          map (\<lambda>r. if att_id (snd r) \<in> set (originalAttachments s)
                    then RemoveCollection (att_class (snd r)) (att_space (snd r))
                           (att_id (snd r)) (attachedTo (snd r)) (attachedToClass (snd r))
                           ''attachments''
                    else DeleteFile (att_file (snd r)))
            (removedAttachments s)
    in trace (onMessage env detail s) =
         trace s @ map Call adds @ map Call dels @ [Await]
         @ (if list_all (fulfils env) (adds @ dels)
            then [Dispatch ''message'' detail (length (attachments s))] else [])
       \<and> attachments (onMessage env detail s) = attachments s
       \<and> saved (onMessage env detail s))"
proof -
  note ops = commit_ops [of env s]
  have tr: "trace (onMessage env detail s) =
      trace s @ map Call (fst (createAttachments env s))
      @ Await # (if list_all (fulfils env) (fst (createAttachments env s))
                 then [Dispatch ''message'' detail (length (attachments s))] else [])"
    by (rule trace_onMessage)
  have fr: "attachments (onMessage env detail s) = attachments s \<and> saved (onMessage env detail s)"
    by (simp add: onMessage_def split_beta Let_def snd_createAttachments emit_def)
  show ?thesis
    unfolding Let_def using tr fr unfolding ops by simp
qed

theorem onMessage_commits_then_dispatches_witness:
  "trace (onMessage demo_services ''hi'' staged_component) =
     [Call (AddCollection ''attachment:class:Attachment'' ''sp'' ''doc'' ''cls'' ''attachments''
              (demo_attachment ''a'') ''a''),
      Call (AddCollection ''attachment:class:Attachment'' ''sp'' ''doc'' ''cls'' ''attachments''
              (demo_attachment ''b'') ''b''),
      Call (DeleteFile ''blob-r''),
      Call (RemoveCollection ''attachment:class:Attachment'' ''sp'' ''q'' ''doc'' ''cls''
              ''attachments''),
      Await,
      Dispatch ''message'' ''hi'' 3]
   \<and> trace (onMessage failing_services ''hi''
              (staged_component\<lparr>existingAttachments := [''a'']\<rparr>)) =
     [Call (AddCollection ''attachment:class:Attachment'' ''sp'' ''doc'' ''cls'' ''attachments''
              (demo_attachment ''b'') ''b''),
      Call (DeleteFile ''blob-r''),
      Call (RemoveCollection ''attachment:class:Attachment'' ''sp'' ''q'' ''doc'' ''cls''
              ''attachments''),
      Await]"
proof -
  let ?s = "staged_component\<lparr>existingAttachments := [''a'']\<rparr>"
  note r1 = onMessage_commits_then_dispatches
    [of demo_services staged_component "''hi''", unfolded Let_def, THEN conjunct1]
  note r2 = onMessage_commits_then_dispatches
    [of failing_services ?s "''hi''", unfolded Let_def, THEN conjunct1]
  have t1: "trace (onMessage demo_services ''hi'' staged_component) =
     [Call (AddCollection ''attachment:class:Attachment'' ''sp'' ''doc'' ''cls'' ''attachments''
              (demo_attachment ''a'') ''a''),
      Call (AddCollection ''attachment:class:Attachment'' ''sp'' ''doc'' ''cls'' ''attachments''
              (demo_attachment ''b'') ''b''),
      Call (DeleteFile ''blob-r''),
      Call (RemoveCollection ''attachment:class:Attachment'' ''sp'' ''q'' ''doc'' ''cls''
              ''attachments''),
      Await,
      Dispatch ''message'' ''hi'' 3]"
    unfolding r1
    by (simp add: staged_component_def demo_component_def demo_services_def
          demo_attachment_def)
  have t2: "trace (onMessage failing_services ''hi'' ?s) =
     [Call (AddCollection ''attachment:class:Attachment'' ''sp'' ''doc'' ''cls'' ''attachments''
              (demo_attachment ''b'') ''b''),
      Call (DeleteFile ''blob-r''),
      Call (RemoveCollection ''attachment:class:Attachment'' ''sp'' ''q'' ''doc'' ''cls''
              ''attachments''),
      Await]"
    unfolding r2
    by (simp add: staged_component_def demo_component_def failing_services_def
          demo_attachment_def)
  show ?thesis using t1 t2 by blast
qed

text \<open>
  C2. Teardown before any commit. Without draft saving, every attachment whose id is in
  \<open>newAttachments\<close> and which is still in the map is rolled back, by
  \<^verbatim>\<open>removeCollection\<close> when its id is among the original ones and by \<^verbatim>\<open>deleteFile\<close> of its
  blob otherwise; nothing else changes. With draft saving, teardown commits: \<open>saved\<close> is
  set, the staged attachments that are not among the existing ones are added to the
  store, and the removed attachments are deleted.
\<close>

theorem onDestroy_rolls_back_or_commits:
  "\<not> saved s \<Longrightarrow>
     onDestroy env s =
       (if shouldSaveDraft s then
          s\<lparr>saved := True,
            trace := trace s
              @ map (\<lambda>a. Call (AddCollection (class_Attachment env) (space s) (objectId s)
                                 (obj_class s) ''attachments'' a (att_id a)))
                  (filter (\<lambda>a. att_id a \<notin> set (existingAttachments s))
                     (concat (map (\<lambda>p. case map_of (attachments s) p of
                                          None \<Rightarrow> [] | Some a \<Rightarrow> [a])
                                (newAttachments s))))
              @ map (\<lambda>r. Call (if att_id (snd r) \<in> set (originalAttachments s)
                                then RemoveCollection (att_class (snd r)) (att_space (snd r))
                                       (att_id (snd r)) (attachedTo (snd r))
                                       (attachedToClass (snd r)) ''attachments''
                                else DeleteFile (att_file (snd r))))
                  (removedAttachments s)\<rparr>
        else
          s\<lparr>trace := trace s
              @ map (\<lambda>a. Call (if att_id a \<in> set (originalAttachments s)
                                then RemoveCollection (att_class a) (att_space a) (att_id a)
                                       (attachedTo a) (attachedToClass a) ''attachments''
                                else DeleteFile (att_file a)))
                  (concat (map (\<lambda>p. case map_of (attachments s) p of
                                       None \<Rightarrow> [] | Some a \<Rightarrow> [a])
                             (newAttachments s)))\<rparr>)"
proof -
  assume ns: "\<not> saved s"
  show ?thesis
  proof (cases "shouldSaveDraft s")
    case True
    then have "onDestroy env s = snd (createAttachments env s)"
      using ns by (simp add: onDestroy_def)
    then show ?thesis
      using True
      by (simp add: snd_createAttachments commit_ops emit_def o_def if_distrib cong: if_cong)
  next
    case False
    then have "onDestroy env s = emit (map Call (concat (map (deleteAttachment s) (staged s)))) s"
      using ns by (simp add: onDestroy_def emit_def)
    then show ?thesis
      using False
      by (simp add: deletes_explicit emit_def o_def if_distrib flip: staged_concat cong: if_cong)
  qed
qed

theorem onDestroy_rolls_back_or_commits_witness:
  "\<not> saved staged_component
   \<and> onDestroy demo_services staged_component =
       staged_component
         \<lparr>trace :=
            [Call (DeleteFile ''blob-a''),
             Call (RemoveCollection ''attachment:class:Attachment'' ''sp'' ''b'' ''doc'' ''cls''
                     ''attachments'')]\<rparr>
   \<and> \<not> saved (staged_component\<lparr>shouldSaveDraft := True\<rparr>)
   \<and> onDestroy demo_services (staged_component\<lparr>shouldSaveDraft := True\<rparr>) =
       staged_component
         \<lparr>shouldSaveDraft := True, saved := True,
          trace :=
            [Call (AddCollection ''attachment:class:Attachment'' ''sp'' ''doc'' ''cls''
                     ''attachments'' (demo_attachment ''a'') ''a''),
             Call (AddCollection ''attachment:class:Attachment'' ''sp'' ''doc'' ''cls''
                     ''attachments'' (demo_attachment ''b'') ''b''),
             Call (DeleteFile ''blob-r''),
             Call (RemoveCollection ''attachment:class:Attachment'' ''sp'' ''q'' ''doc'' ''cls''
                     ''attachments'')]\<rparr>"
proof -
  let ?d = "staged_component\<lparr>shouldSaveDraft := True\<rparr>"
  have h1: "\<not> saved staged_component"
    by (simp add: staged_component_def demo_component_def)
  have h2: "\<not> saved ?d"
    by (simp add: staged_component_def demo_component_def)
  note r1 = onDestroy_rolls_back_or_commits [OF h1, of demo_services]
  note r2 = onDestroy_rolls_back_or_commits [OF h2, of demo_services]
  have t1: "onDestroy demo_services staged_component =
       staged_component
         \<lparr>trace :=
            [Call (DeleteFile ''blob-a''),
             Call (RemoveCollection ''attachment:class:Attachment'' ''sp'' ''b'' ''doc'' ''cls''
                     ''attachments'')]\<rparr>"
    unfolding r1
    by (simp add: staged_component_def demo_component_def demo_attachment_def)
  have t2: "onDestroy demo_services ?d =
       staged_component
         \<lparr>shouldSaveDraft := True, saved := True,
          trace :=
            [Call (AddCollection ''attachment:class:Attachment'' ''sp'' ''doc'' ''cls''
                     ''attachments'' (demo_attachment ''a'') ''a''),
             Call (AddCollection ''attachment:class:Attachment'' ''sp'' ''doc'' ''cls''
                     ''attachments'' (demo_attachment ''b'') ''b''),
             Call (DeleteFile ''blob-r''),
             Call (RemoveCollection ''attachment:class:Attachment'' ''sp'' ''q'' ''doc'' ''cls''
                     ''attachments'')]\<rparr>"
    unfolding r2
    by (simp add: staged_component_def demo_component_def demo_attachment_def
          demo_services_def)
  show ?thesis using h1 h2 t1 t2 by blast
qed

text \<open>
  C3. \<^verbatim>\<open>saveAttachment\<close> adds a collection record for a document exactly when the
  document's id is not in \<open>existingAttachments\<close>, and issues nothing when it is.
  \<open>existingAttachments\<close> is what the callback of the live query stored: the ids of the
  documents the query returned, the query asking for the attachments of the current
  space, object and class whose id is a key of the \<open>attachments\<close> map.
\<close>

theorem saveAttachment_iff_not_existing:
  "(saveAttachment env s doc =
      [AddCollection (class_Attachment env) (space s) (objectId s) (obj_class s)
         ''attachments'' doc (att_id doc)]) = (att_id doc \<notin> set (existingAttachments s))
   \<and> (saveAttachment env s doc = []) = (att_id doc \<in> set (existingAttachments s))
   \<and> existingAttachments (existingAttachmentsResult res s) = map att_id res
   \<and> (saveAttachment env (existingAttachmentsResult res s) doc = []) = (att_id doc \<in> att_id ` set res)
   \<and> existingAttachmentsQuery env s =
       ExistingQuery (class_Attachment env) (space s) (objectId s) (obj_class s)
         (map fst (attachments s))"
  by (simp add: saveAttachment_def existingAttachmentsResult_def existingAttachmentsQuery_def)

text \<open>
  C4. When the upload and the metadata request succeed and the generated id is not yet a
  key of the map, \<^verbatim>\<open>createAttachment\<close> adds exactly one entry, under that id: name, type,
  size and modification time are the file's, the blob is the one the upload returned,
  and owner, owner class and space are the component's. The id joins \<open>newAttachments\<close>.
\<close>

theorem createAttachment_stages_one:
  assumes "uploadFile env f = Inr uuid"
    and "getFileMetadata env f uuid = Inr md"
    and "generateId env (idsGenerated s) \<notin> fst ` set (attachments s)"
  shows "attachments (createAttachment env f s) =
           attachments s @
           [(generateId env (idsGenerated s),
             \<lparr>att_id = generateId env (idsGenerated s), att_class = class_Attachment env,
              collection = ''attachments'', modifiedOn = 0, modifiedBy = [],
              att_space = space s, attachedTo = objectId s, attachedToClass = obj_class s,
              att_name = file_name f, att_file = uuid, att_type = file_type f,
              att_size = file_size f, lastModified = file_lastModified f,
              att_metadata = md\<rparr>)]
         \<and> set (newAttachments (createAttachment env f s)) =
             insert (generateId env (idsGenerated s)) (set (newAttachments s))"
  using assms
  by (auto simp: createAttachment_def Let_def emit_def saveDraft_def draftController_save_def
        update_fresh set_add_def)

theorem createAttachment_stages_one_witness:
  "uploadFile demo_services demo_file = Inr ''blob-a.png''
   \<and> getFileMetadata demo_services demo_file ''blob-a.png'' = Inr None
   \<and> generateId demo_services (idsGenerated demo_component)
        \<notin> fst ` set (attachments demo_component)
   \<and> attachments (createAttachment demo_services demo_file demo_component) =
       [(''i'', (demo_attachment ''i'')\<lparr>att_file := ''blob-a.png''\<rparr>)]
   \<and> set (newAttachments (createAttachment demo_services demo_file demo_component)) = {''i''}"
proof -
  have h1: "uploadFile demo_services demo_file = Inr ''blob-a.png''"
    by (simp add: demo_services_def demo_file_def)
  have h2: "getFileMetadata demo_services demo_file ''blob-a.png'' = Inr None"
    by (simp add: demo_services_def)
  have h3: "generateId demo_services (idsGenerated demo_component)
        \<notin> fst ` set (attachments demo_component)"
    by (simp add: demo_component_def)
  note r = createAttachment_stages_one [OF h1 h2 h3]
  have c1: "attachments (createAttachment demo_services demo_file demo_component) =
       [(''i'', (demo_attachment ''i'')\<lparr>att_file := ''blob-a.png''\<rparr>)]"
    unfolding r [THEN conjunct1]
    by (simp add: demo_services_def demo_file_def demo_component_def demo_attachment_def)
  have c2: "set (newAttachments (createAttachment demo_services demo_file demo_component)) = {''i''}"
    unfolding r [THEN conjunct2]
    by (simp add: demo_services_def demo_component_def)
  show ?thesis using h1 h2 h3 c1 c2 by blast
qed

text \<open>
  C5. When the upload or the metadata request fails, \<^verbatim>\<open>createAttachment\<close> reports the
  error as an unknown error and does nothing else: the upload was called once, and the
  map, \<open>newAttachments\<close> and the draft are as before.
\<close>

theorem createAttachment_failure:
  "(uploadFile env f = Inl e \<longrightarrow>
      createAttachment env f s =
        emit [Call (UploadFile f), Await, SetPlatformStatus (UnknownError e)] s)
   \<and> (uploadFile env f = Inr uuid \<and> getFileMetadata env f uuid = Inl e \<longrightarrow>
      createAttachment env f s =
        emit [Call (UploadFile f), Await, Call (GetFileMetadata f uuid), Await,
              SetPlatformStatus (UnknownError e)] s)
   \<and> (uploadFile env f = Inl e \<or> uploadFile env f = Inr uuid \<and> getFileMetadata env f uuid = Inl e \<longrightarrow>
      attachments (createAttachment env f s) = attachments s
      \<and> newAttachments (createAttachment env f s) = newAttachments s
      \<and> draftAttachments (createAttachment env f s) = draftAttachments s
      \<and> draftsStore (createAttachment env f s) = draftsStore s
      \<and> length (filter (\<lambda>ev. ev = Call (UploadFile f)) (issued s (createAttachment env f s))) = 1)"
  by (auto simp: createAttachment_def Let_def emit_def issued_def)

theorem createAttachment_failure_witness:
  "uploadFile failing_services demo_file = Inl ''offline''
   \<and> createAttachment failing_services demo_file demo_component =
       emit [Call (UploadFile demo_file), Await, SetPlatformStatus (UnknownError ''offline'')]
         demo_component
   \<and> attachments (createAttachment failing_services demo_file demo_component) = []
   \<and> uploadFile metadata_failing_services demo_file = Inr ''blob-a.png''
   \<and> getFileMetadata metadata_failing_services demo_file ''blob-a.png'' = Inl ''no metadata''
   \<and> createAttachment metadata_failing_services demo_file demo_component =
       emit [Call (UploadFile demo_file), Await,
             Call (GetFileMetadata demo_file ''blob-a.png''), Await,
             SetPlatformStatus (UnknownError ''no metadata'')] demo_component
   \<and> newAttachments (createAttachment metadata_failing_services demo_file demo_component) = []"
proof -
  have h1: "uploadFile failing_services demo_file = Inl ''offline''"
    by (simp add: failing_services_def)
  have h2: "uploadFile metadata_failing_services demo_file = Inr ''blob-a.png''"
    by (simp add: metadata_failing_services_def demo_services_def demo_file_def)
  have h3: "getFileMetadata metadata_failing_services demo_file ''blob-a.png'' = Inl ''no metadata''"
    by (simp add: metadata_failing_services_def)
  note r1 = createAttachment_failure [of failing_services demo_file "''offline''" demo_component]
  note r2 = createAttachment_failure
    [of metadata_failing_services demo_file "''no metadata''" demo_component "''blob-a.png''"]
  have c1: "createAttachment failing_services demo_file demo_component =
       emit [Call (UploadFile demo_file), Await, SetPlatformStatus (UnknownError ''offline'')]
         demo_component"
    using r1 h1 by blast
  have c2: "attachments (createAttachment failing_services demo_file demo_component) =
       attachments demo_component"
    using r1 h1 by blast
  have c3: "createAttachment metadata_failing_services demo_file demo_component =
       emit [Call (UploadFile demo_file), Await,
             Call (GetFileMetadata demo_file ''blob-a.png''), Await,
             SetPlatformStatus (UnknownError ''no metadata'')] demo_component"
    using r2 h2 h3 by blast
  have c4: "newAttachments (createAttachment metadata_failing_services demo_file demo_component) =
       newAttachments demo_component"
    using r2 h2 h3 by blast
  have e: "attachments demo_component = []" "newAttachments demo_component = []"
    by (simp_all add: demo_component_def)
  show ?thesis using h1 h2 h3 c1 c2 c3 c4 unfolding e by blast
qed




text \<open>
  C7. Staging is sequential: \<^verbatim>\<open>createAttachment\<close>, and the loops of \<^verbatim>\<open>fileSelected\<close>,
  \<^verbatim>\<open>fileDrop\<close> and \<^verbatim>\<open>loadFiles\<close> over it, never have more than one operation issued
  and not awaited. The commit is a batch: \<^verbatim>\<open>createAttachments\<close> issues all its saves and
  deletes without a wait between them, so that all of them are outstanding when
  \<^verbatim>\<open>onMessage\<close> awaits; and teardown awaits none of the operations it issues.

  Stated for every operation of the component the property fails: a commit of four
  operations has four of them outstanding at once.
\<close>

theorem staging_sequential_commit_batched:
  "peak 0 (issued s (createAttachment env f s)) = 1
   \<and> peak 0 (issued s (fileSelected env s)) \<le> 1
   \<and> peak 0 (issued s (fileDrop env e s)) \<le> 1
   \<and> peak 0 (issued s (loadFiles env evt s)) \<le> 1
   \<and> issued s (snd (createAttachments env s)) = map Call (fst (createAttachments env s))
   \<and> peak 0 (issued s (onMessage env detail s)) = length (fst (createAttachments env s))
   \<and> pending 0 (issued s (onDestroy env s)) = length (issued s (onDestroy env s))"
proof -
  have all: "peak 0 (issued s ((createAll env fs (s\<lparr>progress := True\<rparr>))\<lparr>progress := False\<rparr>)) \<le> 1"
    for fs
  proof -
    obtain es where es: "trace (createAll env fs (s\<lparr>progress := True\<rparr>)) = trace s @ es"
        "peak 0 es \<le> 1"
      using createAll_trace [of env fs "s\<lparr>progress := True\<rparr>"] by auto
    then show ?thesis by (simp add: issued_def)
  qed
  have all': "peak 0 (issued s ((createAll env fs (s\<lparr>progress := True\<rparr>))
       \<lparr>inputFile_files := Some [], progress := False\<rparr>)) \<le> 1" for fs
    using all [of fs] by (simp add: issued_def)
  have one: "peak 0 (issued s (createAttachment env f s)) = 1"
    by (simp add: issued_def trace_createAttachment peak_createAttachment_events)
  have sel: "peak 0 (issued s (fileSelected env s)) \<le> 1"
    using all' by (simp add: fileSelected_def Let_def issued_def split: option.splits)
  have drop: "peak 0 (issued s (fileDrop env e s)) \<le> 1"
    using all by (simp add: fileDrop_def Let_def issued_def split: option.splits)
  have load: "peak 0 (issued s (loadFiles env evt s)) \<le> 1"
    using all by (simp add: loadFiles_def Let_def)
  have com: "issued s (snd (createAttachments env s)) = map Call (fst (createAttachments env s))"
    by (simp add: snd_createAttachments issued_def emit_def)
  have msg: "peak 0 (issued s (onMessage env detail s)) = length (fst (createAttachments env s))"
    by (simp add: issued_def trace_onMessage peak_Calls_Await)
  have des: "pending 0 (issued s (onDestroy env s)) = length (issued s (onDestroy env s))"
    by (simp add: onDestroy_def Let_def snd_createAttachments issued_def emit_def pending_Calls)
  show ?thesis using one sel drop load com msg des by blast
qed

theorem commit_is_concurrent_counterexample:
  "\<not> peak 0 (issued staged_component (onMessage demo_services ''hi'' staged_component)) \<le> 1"
  by (simp add: onMessage_def Let_def split_beta createAttachments_def issued_def emit_def
        staged_component_def demo_component_def staged_def map_filter_def saveAttachment_def
        deleteAttachment_def demo_attachment_def demo_services_def)

text \<open>
  C8. Once \<^verbatim>\<open>createAttachments\<close> has run, whatever the component does afterwards,
  teardown changes nothing: no operation is issued and no variable of the component
  changes.
\<close>

theorem onDestroy_after_commit:
  "onDestroy env' (run as (snd (createAttachments env s))) = run as (snd (createAttachments env s))"
  by (rule onDestroy_saved) (simp add: saved_run)




text \<open>
  C10. With no file list or an empty one, \<^verbatim>\<open>fileSelected\<close> and \<^verbatim>\<open>fileDrop\<close> return
  with \<open>progress\<close> set and nothing else changed.
\<close>

theorem empty_selection_keeps_progress:
  "(inputFile_files s = None \<or> inputFile_files s = Some [] \<longrightarrow>
      fileSelected env s = s\<lparr>progress := True\<rparr>)
   \<and> (dataTransfer e = None \<or> dataTransfer e = Some [] \<longrightarrow>
      fileDrop env e s = s\<lparr>progress := True\<rparr>)"
  by (auto simp: fileSelected_def fileDrop_def)

theorem empty_selection_keeps_progress_witness:
  "inputFile_files (demo_component\<lparr>inputFile_files := Some []\<rparr>) = Some []
   \<and> progress (fileSelected demo_services (demo_component\<lparr>inputFile_files := Some []\<rparr>))
   \<and> attachments (fileSelected demo_services (demo_component\<lparr>inputFile_files := Some []\<rparr>)) = []
   \<and> dataTransfer \<lparr>dataTransfer = None\<rparr> = None
   \<and> progress (fileDrop demo_services \<lparr>dataTransfer = None\<rparr> demo_component)
   \<and> attachments (fileDrop demo_services \<lparr>dataTransfer = None\<rparr> demo_component) = []"
proof -
  let ?s = "demo_component\<lparr>inputFile_files := Some []\<rparr>"
  let ?e = "\<lparr>dataTransfer = None\<rparr>"
  have h1: "inputFile_files ?s = None \<or> inputFile_files ?s = Some []" by simp
  have h2: "dataTransfer ?e = None \<or> dataTransfer ?e = Some []" by simp
  have r1: "fileSelected demo_services ?s = ?s\<lparr>progress := True\<rparr>"
    using empty_selection_keeps_progress [of ?s demo_services ?e] h1 by blast
  have r2: "fileDrop demo_services ?e demo_component = demo_component\<lparr>progress := True\<rparr>"
    using empty_selection_keeps_progress [of demo_component demo_services ?e] h2 by blast
  show ?thesis
    unfolding r1 r2 by (simp add: demo_component_def)
qed

end
